theory Spec2Isabelle
  imports Main "HOL-Library.Sublist" "HOL-Library.Multiset"
begin

section \<open>Conventions\<close>

text \<open>
  The development embeds the ingestion and delivery pipeline of the daily-news
  repository.  A JavaScript string is the list of its code units, and the strings
  of the model are those whose code units lie below 256 (Basic Latin and Latin-1
  Supplement), one \<open>char\<close> each.  A valid \<open>Date\<close> is its time value, the number of
  milliseconds since the epoch, an \<open>int\<close>.  A count or an option of the
  configuration is an \<open>int\<close>; the numbers that the code computes from a response
  header have a type of their own, \<open>number\<close>.  A value that may be \<open>undefined\<close> is
  an \<open>option\<close>.  A thrown exception is the left summand of a result \<open>error + 'a\<close>.
  Logging has no effect on any result and is left out.

  Record fields carry a prefix naming their class (\<open>a_\<close> for \<open>Article\<close>, \<open>dto_\<close>
  for \<open>ArticleDTO\<close>, \<open>p_\<close> for the stored plain object, \<open>f_\<close> for
  \<open>ArticleFilter\<close>), since the classes of the source share their field names.
\<close>

datatype error =
    Error string
  | StorageError string
  | NotificationError string
  | FeedFetchError string
  | FeedParseError string

fun message :: "error \<Rightarrow> string" where
  "message (Error m) = m"
| "message (StorageError m) = m"
| "message (NotificationError m) = m"
| "message (FeedFetchError m) = m"
| "message (FeedParseError m) = m"

text \<open>Truthiness of an optional string: \<open>undefined\<close> and the empty string are falsy.\<close>

fun truthy :: "string option \<Rightarrow> bool" where
  "truthy None = False"
| "truthy (Some s) = (s \<noteq> [])"

section \<open>Article (domain model)\<close>

record Article =
  a_id :: string
  a_title :: string
  a_url :: string
  a_description :: "string option"
  a_content :: "string option"
  a_publishedAt :: int
  a_feedName :: string

text \<open>
  \<open>generateId\<close> feeds \<open>url + title\<close> to \<open>crypto.createHash('sha256')\<close> and returns
  the hexadecimal digest.  The digest function belongs to the Node.js runtime, not
  to the repository; it is the parameter \<open>sha256_hex\<close> here.
\<close>

definition generateId :: "(string \<Rightarrow> string) \<Rightarrow> string \<Rightarrow> string \<Rightarrow> string" where
  "generateId sha256_hex url title = sha256_hex (url @ title)"

text \<open>The constructor, with the parameter order of the source.\<close>

definition new_Article ::
  "(string \<Rightarrow> string) \<Rightarrow> string \<Rightarrow> string \<Rightarrow> int \<Rightarrow> string \<Rightarrow>
   string option \<Rightarrow> string option \<Rightarrow> Article" where
  "new_Article sha256_hex title url publishedAt feedName description content =
     \<lparr> a_id = generateId sha256_hex url title,
       a_title = title,
       a_url = url,
       a_description = description,
       a_content = content,
       a_publishedAt = publishedAt,
       a_feedName = feedName \<rparr>"

text \<open>
  The fields of an \<open>Article\<close> are private and set by the constructor only, so
  every article of a run satisfies the invariant that its id is the digest of its
  url and title.
\<close>

definition constructed :: "(string \<Rightarrow> string) \<Rightarrow> Article \<Rightarrow> bool" where
  "constructed sha256_hex a = (a_id a = generateId sha256_hex (a_url a) (a_title a))"

text \<open>
  The stored plain object.  \<open>publishedAt\<close> is an ISO-8601 string in the source;
  \<open>toISOString\<close> and \<open>new Date\<close> are inverse on valid dates, so the time value
  stands for the string.
\<close>

record PlainArticle =
  p_id :: string
  p_title :: string
  p_url :: string
  p_description :: "string option"
  p_publishedAt :: int
  p_feedName :: string

definition toPlainObject :: "Article \<Rightarrow> PlainArticle" where
  "toPlainObject a =
     \<lparr> p_id = a_id a,
       p_title = a_title a,
       p_url = a_url a,
       p_description = a_description a,
       p_publishedAt = a_publishedAt a,
       p_feedName = a_feedName a \<rparr>"

text \<open>\<open>Article.fromPlainObject\<close> ignores the stored id: the constructor computes it again.\<close>

definition fromPlainObject :: "(string \<Rightarrow> string) \<Rightarrow> PlainArticle \<Rightarrow> Article" where
  "fromPlainObject sha256_hex obj =
     new_Article sha256_hex (p_title obj) (p_url obj) (p_publishedAt obj) (p_feedName obj)
       (p_description obj) None"

section \<open>ArticleFilter (domain model)\<close>

datatype MatchStrategy = MatchOR | MatchAND

record FilterOptions =
  matchStrategy :: MatchStrategy
  caseSensitive :: bool
  searchInTitle :: bool
  searchInDescription :: bool
  searchInContent :: bool

record PartialFilterOptions =
  opt_matchStrategy :: "MatchStrategy option"
  opt_caseSensitive :: "bool option"
  opt_searchInTitle :: "bool option"
  opt_searchInDescription :: "bool option"
  opt_searchInContent :: "bool option"

record ArticleFilter =
  f_keywords :: "string list"
  f_options :: FilterOptions

text \<open>\<open>x ?? d\<close> and, on these types, \<open>x || d\<close> with \<open>d\<close> the falsy value.\<close>

fun orElse :: "'a option \<Rightarrow> 'a \<Rightarrow> 'a" where
  "orElse None d = d"
| "orElse (Some v) d = v"

definition new_ArticleFilter ::
  "string list \<Rightarrow> PartialFilterOptions option \<Rightarrow> error + ArticleFilter" where
  "new_ArticleFilter kws opts =
     (if length kws = 0 then Inl (Error ''At least one keyword is required for filtering'')
      else Inr \<lparr> f_keywords = kws,
                 f_options = \<lparr>
                   matchStrategy = orElse (Option.bind opts opt_matchStrategy) MatchOR,
                   caseSensitive = orElse (Option.bind opts opt_caseSensitive) False,
                   searchInTitle = orElse (Option.bind opts opt_searchInTitle) True,
                   searchInDescription = orElse (Option.bind opts opt_searchInDescription) True,
                   searchInContent = orElse (Option.bind opts opt_searchInContent) False \<rparr> \<rparr>)"

section \<open>ArticleFilterService\<close>

subsection \<open>String primitives\<close>

text \<open>
  \<open>toLowerCase\<close>.  Among the code units below 256 the upper-case letters are
  \<open>A\<close> to \<open>Z\<close> (65 to 90) and the Latin-1 letters 192 to 222 except the
  multiplication sign 215; each has its lower-case letter 32 places further on.
  Every other code unit below 256 is mapped to itself.
\<close>

definition lowerChar :: "char \<Rightarrow> char" where
  "lowerChar c =
     (let n = (of_char c :: nat)
      in if (65 \<le> n \<and> n \<le> 90) \<or> (192 \<le> n \<and> n \<le> 222 \<and> n \<noteq> 215)
         then char_of (n + 32) else c)"

definition toLowerCase :: "string \<Rightarrow> string" where
  "toLowerCase s = map lowerChar s"

text \<open>\<open>text.includes(keyword)\<close>: the keyword occurs as a contiguous substring.\<close>

fun str_includes :: "string \<Rightarrow> string \<Rightarrow> bool" where
  "str_includes [] k = (k = [])"
| "str_includes (c # cs) k = (prefix k (c # cs) \<or> str_includes cs k)"

text \<open>\<open>parts.join(sep)\<close>.\<close>

fun join :: "string \<Rightarrow> string list \<Rightarrow> string" where
  "join sep [] = []"
| "join sep [p] = p"
| "join sep (p # q # ps) = p @ sep @ join sep (q # ps)"

subsection \<open>Keyword matching\<close>

definition buildSearchableText :: "Article \<Rightarrow> FilterOptions \<Rightarrow> string" where
  "buildSearchableText article opts =
     (let parts0 = [];
          parts1 = (if searchInTitle opts then parts0 @ [a_title article] else parts0);
          parts2 = (if searchInDescription opts \<and> truthy (a_description article)
                    then parts1 @ [orElse (a_description article) []] else parts1);
          parts3 = (if searchInContent opts \<and> truthy (a_content article)
                    then parts2 @ [orElse (a_content article) []] else parts2)
      in join '' '' parts3)"

definition matchKeyword :: "string \<Rightarrow> string \<Rightarrow> bool \<Rightarrow> bool" where
  "matchKeyword text keyword cs =
     (let searchText = (if cs then text else toLowerCase text);
          searchKeyword = (if cs then keyword else toLowerCase keyword)
      in str_includes searchText searchKeyword)"

text \<open>\<open>matches.some(m => m)\<close> is \<open>list_ex\<close>, \<open>matches.every(m => m)\<close> is \<open>list_all\<close>.\<close>

definition matchesFilter :: "Article \<Rightarrow> ArticleFilter \<Rightarrow> bool" where
  "matchesFilter article flt =
     (let opts = f_options flt;
          searchableText = buildSearchableText article opts;
          matches = map (\<lambda>keyword. matchKeyword searchableText keyword (caseSensitive opts))
                      (f_keywords flt)
      in if matchStrategy opts = MatchOR
         then list_ex (\<lambda>m. m) matches
         else list_all (\<lambda>m. m) matches)"

definition filterArticles :: "Article list \<Rightarrow> ArticleFilter \<Rightarrow> Article list" where
  "filterArticles articles flt = filter (\<lambda>article. matchesFilter article flt) articles"

subsection \<open>Deduplication\<close>

text \<open>The \<open>Set<string>\<close> of read ids is a set of strings; \<open>has\<close> is membership.\<close>

definition excludeReadArticles :: "Article list \<Rightarrow> string set \<Rightarrow> Article list" where
  "excludeReadArticles articles readArticleIds =
     filter (\<lambda>article. \<not> (a_id article \<in> readArticleIds)) articles"

subsection \<open>Ranking and limiting\<close>

text \<open>
  \<open>Array.prototype.sort\<close> with a comparator.  ECMAScript requires the sort to be
  stable, and for a consistent comparator the stable sorted arrangement is unique;
  insertion from the right computes it.  An element is placed before the first
  element that the comparator does not order before it.
\<close>

fun insertBy :: "('a \<Rightarrow> 'a \<Rightarrow> int) \<Rightarrow> 'a \<Rightarrow> 'a list \<Rightarrow> 'a list" where
  "insertBy cmp x [] = [x]"
| "insertBy cmp x (y # ys) =
     (if cmp x y \<le> 0 then x # y # ys else y # insertBy cmp x ys)"

fun array_sort :: "('a \<Rightarrow> 'a \<Rightarrow> int) \<Rightarrow> 'a list \<Rightarrow> 'a list" where
  "array_sort cmp [] = []"
| "array_sort cmp (x # xs) = insertBy cmp x (array_sort cmp xs)"

text \<open>
  \<open>Array.prototype.slice(0, end)\<close> for an integral \<open>end\<close>: a negative \<open>end\<close> counts
  from the end of the array, and the bounds are clamped.
\<close>

definition slice0 :: "'a list \<Rightarrow> int \<Rightarrow> 'a list" where
  "slice0 xs endIdx =
     (if endIdx < 0 then take (nat (int (length xs) + endIdx)) xs else take (nat endIdx) xs)"

text \<open>The contents of the array that \<open>sortByPublishedDate\<close> returns.\<close>

definition sortByPublishedDate :: "Article list \<Rightarrow> Article list" where
  "sortByPublishedDate articles =
     array_sort (\<lambda>a b. a_publishedAt b - a_publishedAt a) articles"

definition limitArticles :: "Article list \<Rightarrow> int \<Rightarrow> Article list" where
  "limitArticles articles maxCount = slice0 articles maxCount"

subsection \<open>Arrays in the store\<close>

text \<open>
  An array of the source is a reference to a mutable object.  The store lists the
  arrays allocated so far and a reference is an index into it; a reference that the
  program holds is always below the length of the store.  \<open>sort\<close> works in place
  and returns its receiver; \<open>slice\<close> allocates a new array.
\<close>

type_synonym ref = nat
type_synonym store = "Article list list"

definition alloc :: "store \<Rightarrow> Article list \<Rightarrow> store \<times> ref" where
  "alloc st xs = (st @ [xs], length st)"

definition sortByPublishedDate_store :: "store \<Rightarrow> ref \<Rightarrow> store \<times> ref" where
  "sortByPublishedDate_store st articles =
     (st[articles := sortByPublishedDate (st ! articles)], articles)"

definition limitArticles_store :: "store \<Rightarrow> ref \<Rightarrow> int \<Rightarrow> store \<times> ref" where
  "limitArticles_store st articles maxCount =
     alloc st (limitArticles (st ! articles) maxCount)"

section \<open>Numbers and their text\<close>

text \<open>
  A JavaScript number is a double.  \<open>Num v\<close> is the double of the integer \<open>v\<close>,
  for \<open>v\<close> of magnitude at most \<open>2 ^ 53\<close>: these integers are doubles and a sum or
  product of them that stays in the range is exact.  \<open>NaN\<close> is not-a-number.
  \<open>Unknown\<close> stands for any other result, a double that this model does not
  determine (an integer beyond the range is rounded, and may be infinite).
\<close>

datatype number = NaN | Num int | Unknown

definition exact :: "int \<Rightarrow> number" where
  "exact v = (if \<bar>v\<bar> \<le> 2 ^ 53 then Num v else Unknown)"

text \<open>The product: \<open>NaN\<close> is absorbing, and nothing is known of a product with
  an undetermined factor.\<close>

fun multiply :: "number \<Rightarrow> number \<Rightarrow> number" where
  "multiply (Num a) (Num b) = exact (a * b)"
| "multiply NaN _ = NaN"
| "multiply _ NaN = NaN"
| "multiply _ _ = Unknown"

definition digitChar :: "nat \<Rightarrow> char" where
  "digitChar d = char_of (48 + d)"

text \<open>The decimal digits of a natural number, and \<open>String(n)\<close> of an integer.\<close>

function decimal :: "nat \<Rightarrow> string" where
  "decimal n = (if n < 10 then [digitChar n] else decimal (n div 10) @ [digitChar (n mod 10)])"
  by pat_completeness auto
termination
  by (relation "measure (\<lambda>n. n)") auto

declare decimal.simps [simp del]

definition show_int :: "int \<Rightarrow> string" where
  "show_int i = (if i < 0 then ''-'' @ decimal (nat (- i)) else decimal (nat i))"

text \<open>
  \<open>parseInt(s)\<close> without a radix: leading white space is skipped, a sign is read,
  the prefix \<open>0x\<close> or \<open>0X\<close> selects radix 16, and the longest run of digits of
  the radix is the value; no digit at all gives \<open>NaN\<close>.  The white space and line
  terminators below 256 are the codes 9 to 13, the space 32 and the no-break
  space 160.
\<close>

definition isWhiteSpace :: "char \<Rightarrow> bool" where
  "isWhiteSpace c = ((of_char c :: nat) \<in> {9, 10, 11, 12, 13, 32, 160})"

definition digitValue :: "char \<Rightarrow> nat option" where
  "digitValue c =
     (let n = (of_char c :: nat)
      in if 48 \<le> n \<and> n \<le> 57 then Some (n - 48)
         else if 97 \<le> n \<and> n \<le> 102 then Some (n - 87)
         else if 65 \<le> n \<and> n \<le> 70 then Some (n - 55)
         else None)"

definition isRadixDigit :: "nat \<Rightarrow> char \<Rightarrow> bool" where
  "isRadixDigit radix c = (case digitValue c of None \<Rightarrow> False | Some v \<Rightarrow> v < radix)"

definition digitsValue :: "nat \<Rightarrow> string \<Rightarrow> nat" where
  "digitsValue radix z = foldl (\<lambda>acc c. acc * radix + orElse (digitValue c) 0) 0 z"

definition parseInt :: "string \<Rightarrow> number" where
  "parseInt s =
     (let s0 = dropWhile isWhiteSpace s;
          sign = (if take 1 s0 = ''-'' then - 1 else (1::int));
          s1 = (if take 1 s0 = ''-'' \<or> take 1 s0 = ''+'' then drop 1 s0 else s0);
          hex = (take 2 s1 = ''0x'' \<or> take 2 s1 = ''0X'');
          radix = (if hex then 16 else 10);
          s2 = (if hex then drop 2 s1 else s1);
          z = takeWhile (isRadixDigit radix) s2
      in if z = [] then NaN else exact (sign * int (digitsValue radix z)))"

section \<open>FeedClient\<close>

datatype FeedType = Rss | Atom

record Feed =
  feed_name :: string
  feed_url :: string
  feed_type :: FeedType
  feed_enabled :: bool

definition isEnabled :: "Feed \<Rightarrow> bool" where
  "isEnabled feed = feed_enabled feed"

record FetchOptions =
  fo_maxRetries :: int
  fo_retryDelayMs :: int
  fo_timeout :: int

text \<open>
  \<open>RssFeedParser.parse\<close> reads the network.  One run of the program is fixed by
  an oracle that gives, for a feed and the number of the attempt, what the call
  returns: the parsed articles or the error thrown.
\<close>

type_synonym parser = "Feed \<Rightarrow> int \<Rightarrow> error + Article list"

text \<open>
  The loop of \<open>fetchFeed\<close>.  The state is the attempt, \<open>lastError\<close> (its message)
  and the delays waited so far, each as (attempt, milliseconds).
\<close>

function fetchLoop ::
  "FetchOptions \<Rightarrow> parser \<Rightarrow> Feed \<Rightarrow> int \<Rightarrow> string option \<Rightarrow> (int \<times> int) list \<Rightarrow>
   (error + Article list) \<times> (int \<times> int) list" where
  "fetchLoop opts parse feed attempt lastError waits =
     (if attempt \<le> fo_maxRetries opts then
        (case parse feed attempt of
           Inr articles \<Rightarrow> (Inr articles, waits)
         | Inl e \<Rightarrow>
             (if attempt < fo_maxRetries opts
              then fetchLoop opts parse feed (attempt + 1) (Some (message e))
                     (waits @ [(attempt, fo_retryDelayMs opts * attempt)])
              else fetchLoop opts parse feed (attempt + 1) (Some (message e)) waits))
      else (Inl (FeedFetchError
                  (''Failed to fetch feed '' @ feed_name feed @ '' after '' @
                   show_int (fo_maxRetries opts) @ '' attempts: '' @
                   orElse lastError ''undefined'')),
            waits))"
  by pat_completeness auto
termination
  by (relation "measure (\<lambda>(opts, parse, feed, attempt, lastError, waits).
        nat (fo_maxRetries opts + 1 - attempt))") auto

declare fetchLoop.simps [simp del]

definition fetchFeed ::
  "FetchOptions \<Rightarrow> parser \<Rightarrow> Feed \<Rightarrow> (error + Article list) \<times> (int \<times> int) list" where
  "fetchFeed opts parse feed = fetchLoop opts parse feed 1 None []"

text \<open>\<open>Promise.all\<close>: the values in the order of the promises, or the first rejection.\<close>

fun promise_all :: "(error + 'a) list \<Rightarrow> error + 'a list" where
  "promise_all [] = Inr []"
| "promise_all (p # ps) =
     (case p of
        Inl e \<Rightarrow> Inl e
      | Inr v \<Rightarrow> (case promise_all ps of Inl e \<Rightarrow> Inl e | Inr vs \<Rightarrow> Inr (v # vs)))"

definition fetchFeeds :: "FetchOptions \<Rightarrow> parser \<Rightarrow> Feed list \<Rightarrow> error + Article list" where
  "fetchFeeds opts parse feeds =
     (let fetchPromises =
            map (\<lambda>feed. case fst (fetchFeed opts parse feed) of
                           Inr articles \<Rightarrow> Inr articles
                         | Inl e \<Rightarrow> Inr [])
                feeds
      in case promise_all fetchPromises of
           Inl e \<Rightarrow> Inl e
         | Inr results \<Rightarrow> Inr (concat results))"

definition fetchEnabledFeeds ::
  "FetchOptions \<Rightarrow> parser \<Rightarrow> Feed list \<Rightarrow> error + Article list" where
  "fetchEnabledFeeds opts parse feeds = fetchFeeds opts parse (filter isEnabled feeds)"

section \<open>DiscordNotifier\<close>

record NotificationOptions =
  no_maxRetries :: int
  no_retryDelayMs :: int

text \<open>
  The message formatter renders text and is outside this development: a message
  is named by what was given to the formatter.
\<close>

datatype DiscordMessage =
    ArticlesMessage "Article list" "string list"
  | NoArticlesMessage "string list"
  | ErrorMessage error

text \<open>
  What one \<open>axiosInstance.post\<close> does: it returns, or it throws an Axios error that
  carries a response (status, \<open>retry-after\<close> header, message), or it throws
  anything else (message).
\<close>

datatype post_outcome =
    Posted
  | AxiosErrorResponse nat "string option" string
  | OtherError string

fun responseStatus :: "post_outcome \<Rightarrow> nat option" where
  "responseStatus (AxiosErrorResponse status retryAfter m) = Some status"
| "responseStatus _ = None"

fun retryAfterHeader :: "post_outcome \<Rightarrow> string option" where
  "retryAfterHeader (AxiosErrorResponse status retryAfter m) = retryAfter"
| "retryAfterHeader _ = None"

fun outcomeMessage :: "post_outcome \<Rightarrow> string" where
  "outcomeMessage (AxiosErrorResponse status retryAfter m) = m"
| "outcomeMessage (OtherError m) = m"
| "outcomeMessage Posted = []"

text \<open>The normal backoff, \<open>this.options.retryDelayMs * attempt\<close>.\<close>

definition backoff :: "NotificationOptions \<Rightarrow> int \<Rightarrow> number" where
  "backoff opts attempt = multiply (Num (no_retryDelayMs opts)) (Num attempt)"

text \<open>
  The loop of \<open>sendWithRetry\<close>, against the outcome of each attempt.  Every call of
  \<open>delay\<close> is recorded, in the order of the calls, as (attempt, requested
  milliseconds).
\<close>

function sendLoop ::
  "NotificationOptions \<Rightarrow> (int \<Rightarrow> post_outcome) \<Rightarrow> int \<Rightarrow> string option \<Rightarrow>
   (int \<times> number) list \<Rightarrow> (error + unit) \<times> (int \<times> number) list" where
  "sendLoop opts post attempt lastError waits =
     (if attempt \<le> no_maxRetries opts then
        (if post attempt = Posted then (Inr (), waits)
         else
           (let failure = post attempt;
                lastError' = Some (outcomeMessage failure)
            in if responseStatus failure = Some 429 then
                 (let retryAfter = retryAfterHeader failure;
                      waitTime = (if truthy retryAfter
                                  then multiply (parseInt (orElse retryAfter [])) (Num 1000)
                                  else backoff opts attempt)
                  in sendLoop opts post (attempt + 1) lastError'
                       (waits @ [(attempt, waitTime)]))
               else if attempt < no_maxRetries opts
               then sendLoop opts post (attempt + 1) lastError'
                      (waits @ [(attempt, backoff opts attempt)])
               else sendLoop opts post (attempt + 1) lastError' waits))
      else (Inl (NotificationError
                  (''Failed to send message to Discord after '' @
                   show_int (no_maxRetries opts) @ '' attempts: '' @
                   orElse lastError ''undefined'')),
            waits))"
  by pat_completeness auto
termination
  by (relation "measure (\<lambda>(opts, post, attempt, lastError, waits).
        nat (no_maxRetries opts + 1 - attempt))") auto

declare sendLoop.simps [simp del]

definition sendWithRetry ::
  "NotificationOptions \<Rightarrow> (int \<Rightarrow> post_outcome) \<Rightarrow> (error + unit) \<times> (int \<times> number) list" where
  "sendWithRetry opts post = sendLoop opts post 1 None []"

text \<open>
  The webhook, for the methods that send a message: the outcome of each attempt
  at posting a given message.
\<close>

type_synonym webhook = "DiscordMessage \<Rightarrow> int \<Rightarrow> post_outcome"

definition sendNoArticlesMessage ::
  "NotificationOptions \<Rightarrow> webhook \<Rightarrow> string list \<Rightarrow> error + unit" where
  "sendNoArticlesMessage opts hook kws =
     fst (sendWithRetry opts (hook (NoArticlesMessage kws)))"

definition notifyArticles ::
  "NotificationOptions \<Rightarrow> webhook \<Rightarrow> Article list \<Rightarrow> string list \<Rightarrow> error + unit" where
  "notifyArticles opts hook articles kws =
     (if length articles = 0 then sendNoArticlesMessage opts hook kws
      else fst (sendWithRetry opts (hook (ArticlesMessage articles kws))))"

text \<open>\<open>notifyError\<close> catches whatever the send throws.\<close>

definition notifyError :: "NotificationOptions \<Rightarrow> webhook \<Rightarrow> error \<Rightarrow> error + unit" where
  "notifyError opts hook e =
     (case fst (sendWithRetry opts (hook (ErrorMessage e))) of
        Inr u \<Rightarrow> Inr ()
      | Inl notifyErr \<Rightarrow> Inr ())"

section \<open>ArticleStorage\<close>

text \<open>
  The storage file: absent; present but unreadable or not JSON (with the message
  of the exception); JSON without an \<open>articles\<close> array; or a list of stored
  articles.  \<open>write_errors\<close> scripts the writes to come: each attempt to write
  takes the head, \<open>Some m\<close> makes creating the directory or writing the file fail
  with message \<open>m\<close>, and an exhausted script means success.  A failed write leaves
  the file as it was.
\<close>

datatype file_content =
    Missing
  | Unreadable string
  | NoArticlesArray
  | Stored "PlainArticle list"

record storage =
  content :: file_content
  write_errors :: "string option list"

definition loadArticles :: "(string \<Rightarrow> string) \<Rightarrow> storage \<Rightarrow> error + Article list" where
  "loadArticles sha256_hex st =
     (case content st of
        Missing \<Rightarrow> Inr []
      | Unreadable m \<Rightarrow> Inl (StorageError (''Failed to load articles from storage: '' @ m))
      | NoArticlesArray \<Rightarrow> Inr []
      | Stored items \<Rightarrow> Inr (map (fromPlainObject sha256_hex) items))"

definition saveArticles :: "storage \<Rightarrow> Article list \<Rightarrow> (error + unit) \<times> storage" where
  "saveArticles st articles =
     (case write_errors st of
        Some m # script \<Rightarrow>
          (Inl (StorageError (''Failed to save articles to storage: '' @ m)),
           st\<lparr>write_errors := script\<rparr>)
      | None # script \<Rightarrow>
          (Inr (), st\<lparr>content := Stored (map toPlainObject articles), write_errors := script\<rparr>)
      | [] \<Rightarrow>
          (Inr (), st\<lparr>content := Stored (map toPlainObject articles)\<rparr>))"

text \<open>Every error that reaches the handler of \<open>appendArticles\<close> is a \<open>StorageError\<close>
  of \<open>loadArticles\<close> or \<open>saveArticles\<close> and is thrown on as it is.\<close>

definition appendArticles ::
  "(string \<Rightarrow> string) \<Rightarrow> storage \<Rightarrow> Article list \<Rightarrow> (error + unit) \<times> storage" where
  "appendArticles sha256_hex st newArticles =
     (case loadArticles sha256_hex st of
        Inl e \<Rightarrow> (Inl e, st)
      | Inr existingArticles \<Rightarrow>
          (let existingIds = set (map a_id existingArticles);
               articlesToAdd = filter (\<lambda>article. \<not> (a_id article \<in> existingIds)) newArticles
           in if length articlesToAdd = 0 then (Inr (), st)
              else saveArticles st (existingArticles @ articlesToAdd)))"

text \<open>
  \<open>cutoffDate\<close> is \<open>new Date()\<close> moved by \<open>setDate(getDate() - retentionDays)\<close>:
  the present moment set back by that many calendar days of the local time zone.
  The clock and the time zone belong to the environment: a \<open>calendar\<close> gives, for
  the number of days, the time value of the cutoff date, or \<open>None\<close> when the date
  is invalid.  An article is compared with an invalid date as with \<open>NaN\<close>, so
  \<open>publishedAt >= cutoffDate\<close> is false of every article.
\<close>

type_synonym calendar = "int \<Rightarrow> int option"

definition storage_cleanupOldArticles ::
  "(string \<Rightarrow> string) \<Rightarrow> calendar \<Rightarrow> storage \<Rightarrow> int \<Rightarrow> (error + unit) \<times> storage" where
  "storage_cleanupOldArticles sha256_hex daysAgo st retentionDays =
     (case loadArticles sha256_hex st of
        Inl e \<Rightarrow> (Inl e, st)
      | Inr articles \<Rightarrow>
          (let cutoffDate = daysAgo retentionDays;
               remainingArticles =
                 filter (\<lambda>article. case cutoffDate of
                                      None \<Rightarrow> False
                                    | Some cutoff \<Rightarrow> a_publishedAt article \<ge> cutoff)
                        articles;
               removedCount = int (length articles) - int (length remainingArticles)
           in if removedCount > 0 then saveArticles st remainingArticles
              else (Inr (), st)))"

section \<open>FileArticleRepository\<close>

text \<open>Each method logs the error of the storage and throws it on.\<close>

definition findReadArticleIds :: "(string \<Rightarrow> string) \<Rightarrow> storage \<Rightarrow> error + string list" where
  "findReadArticleIds sha256_hex st =
     (case loadArticles sha256_hex st of
        Inl e \<Rightarrow> Inl e
      | Inr articles \<Rightarrow> Inr (map a_id articles))"

definition saveReadArticles ::
  "(string \<Rightarrow> string) \<Rightarrow> storage \<Rightarrow> Article list \<Rightarrow> (error + unit) \<times> storage" where
  "saveReadArticles sha256_hex st articles =
     (if length articles = 0 then (Inr (), st)
      else (case appendArticles sha256_hex st articles of
              (Inl e, st') \<Rightarrow> (Inl e, st')
            | (Inr u, st') \<Rightarrow> (Inr (), st')))"

definition repo_cleanupOldArticles ::
  "(string \<Rightarrow> string) \<Rightarrow> calendar \<Rightarrow> storage \<Rightarrow> int \<Rightarrow> (error + unit) \<times> storage" where
  "repo_cleanupOldArticles sha256_hex daysAgo st retentionDays =
     (case storage_cleanupOldArticles sha256_hex daysAgo st retentionDays of
        (Inl e, st') \<Rightarrow> (Inl e, st')
      | (Inr u, st') \<Rightarrow> (Inr (), st'))"

section \<open>ArticleDTO\<close>

record ArticleDTO =
  dto_id :: string
  dto_title :: string
  dto_url :: string
  dto_description :: "string option"
  dto_publishedAt :: int
  dto_feedName :: string

definition fromDomain :: "Article \<Rightarrow> ArticleDTO" where
  "fromDomain article =
     \<lparr> dto_id = a_id article,
       dto_title = a_title article,
       dto_url = a_url article,
       dto_description = a_description article,
       dto_publishedAt = a_publishedAt article,
       dto_feedName = a_feedName article \<rparr>"

definition fromDomainList :: "Article list \<Rightarrow> ArticleDTO list" where
  "fromDomainList articles = map fromDomain articles"

definition toDomain :: "(string \<Rightarrow> string) \<Rightarrow> ArticleDTO \<Rightarrow> Article" where
  "toDomain sha256_hex dto =
     new_Article sha256_hex (dto_title dto) (dto_url dto) (dto_publishedAt dto)
       (dto_feedName dto) (dto_description dto) None"

section \<open>FetchArticlesUseCase\<close>

record FetchArticlesInput =
  in_feeds :: "Feed list"
  in_keywords :: "string list"
  in_maxArticles :: "int option"

record FetchArticlesOutput =
  out_articles :: "ArticleDTO list"
  totalFetched :: nat
  totalFiltered :: nat
  newArticles :: nat

definition fetchArticlesFromFeeds ::
  "FetchOptions \<Rightarrow> parser \<Rightarrow> Feed list \<Rightarrow> error + Article list" where
  "fetchArticlesFromFeeds opts parse feeds =
     (let enabledFeeds = filter isEnabled feeds
      in if length enabledFeeds = 0 then Inr []
         else fetchEnabledFeeds opts parse feeds)"

definition filterByKeywords :: "Article list \<Rightarrow> string list \<Rightarrow> error + Article list" where
  "filterByKeywords articles kws =
     (if length kws = 0 then Inr articles
      else (case new_ArticleFilter kws
                   (Some \<lparr> opt_matchStrategy = Some MatchOR,
                           opt_caseSensitive = Some False,
                           opt_searchInTitle = Some True,
                           opt_searchInDescription = Some True,
                           opt_searchInContent = Some False \<rparr>) of
              Inl e \<Rightarrow> Inl e
            | Inr flt \<Rightarrow> Inr (filterArticles articles flt)))"

definition uc_excludeReadArticles ::
  "(string \<Rightarrow> string) \<Rightarrow> storage \<Rightarrow> Article list \<Rightarrow> error + Article list" where
  "uc_excludeReadArticles sha256_hex st articles =
     (case findReadArticleIds sha256_hex st of
        Inl e \<Rightarrow> Inl e
      | Inr readArticleIds \<Rightarrow> Inr (excludeReadArticles articles (set readArticleIds)))"

text \<open>
  \<open>input.maxArticles ? ... : ...\<close>: \<open>undefined\<close> and \<open>0\<close> are falsy, every other
  integer is truthy.
\<close>

definition fetch_execute ::
  "(string \<Rightarrow> string) \<Rightarrow> FetchOptions \<Rightarrow> parser \<Rightarrow> storage \<Rightarrow> FetchArticlesInput \<Rightarrow>
   error + FetchArticlesOutput" where
  "fetch_execute sha256_hex opts parse st input =
     (case fetchArticlesFromFeeds opts parse (in_feeds input) of
        Inl e \<Rightarrow> Inl e
      | Inr fetchedArticles \<Rightarrow>
     (case filterByKeywords fetchedArticles (in_keywords input) of
        Inl e \<Rightarrow> Inl e
      | Inr filteredArticles \<Rightarrow>
     (case uc_excludeReadArticles sha256_hex st filteredArticles of
        Inl e \<Rightarrow> Inl e
      | Inr newArts \<Rightarrow>
          (let sortedArticles = sortByPublishedDate newArts;
               limitedArticles =
                 (case in_maxArticles input of
                    None \<Rightarrow> sortedArticles
                  | Some maxArticles \<Rightarrow>
                      if maxArticles \<noteq> 0 then limitArticles sortedArticles maxArticles
                      else sortedArticles);
               articleDTOs = fromDomainList limitedArticles
           in Inr \<lparr> out_articles = articleDTOs,
                    totalFetched = length fetchedArticles,
                    totalFiltered = length filteredArticles,
                    newArticles = length newArts \<rparr>))))"

section \<open>NotifyArticlesUseCase\<close>

record NotifyArticlesInput =
  nin_articles :: "ArticleDTO list"
  nin_keywords :: "string list"
  nin_skipNotifyIfEmpty :: "bool option"

record NotifyArticlesOutput =
  notified :: bool
  articleCount :: nat
  savedToRepository :: bool

text \<open>The private \<open>cleanupOldArticles\<close> of the use case swallows the error.\<close>

definition uc_cleanupOldArticles ::
  "(string \<Rightarrow> string) \<Rightarrow> calendar \<Rightarrow> storage \<Rightarrow> int \<Rightarrow> (error + unit) \<times> storage" where
  "uc_cleanupOldArticles sha256_hex daysAgo st retentionDays =
     (case repo_cleanupOldArticles sha256_hex daysAgo st retentionDays of
        (Inl e, st') \<Rightarrow> (Inr (), st')
      | (Inr u, st') \<Rightarrow> (Inr (), st'))"

text \<open>The body of the \<open>try\<close> block of \<open>execute\<close>.\<close>

definition notify_try ::
  "(string \<Rightarrow> string) \<Rightarrow> NotificationOptions \<Rightarrow> webhook \<Rightarrow> int \<Rightarrow> calendar \<Rightarrow> storage \<Rightarrow>
   Article list \<Rightarrow> string list \<Rightarrow> nat \<Rightarrow> (error + NotifyArticlesOutput) \<times> storage" where
  "notify_try sha256_hex opts hook retentionDays daysAgo st domainArticles kws n =
     (case notifyArticles opts hook domainArticles kws of
        Inl e \<Rightarrow> (Inl e, st)
      | Inr u \<Rightarrow>
          (case saveReadArticles sha256_hex st domainArticles of
             (Inl e, st1) \<Rightarrow> (Inl e, st1)
           | (Inr u1, st1) \<Rightarrow>
               (case uc_cleanupOldArticles sha256_hex daysAgo st1 retentionDays of
                  (Inl e, st2) \<Rightarrow> (Inl e, st2)
                | (Inr u2, st2) \<Rightarrow>
                    (Inr \<lparr> notified = True, articleCount = n, savedToRepository = True \<rparr>,
                     st2))))"

text \<open>
  \<open>execute\<close>.  In the handler the result of \<open>notifyError\<close> has no influence: the
  caught error is thrown again whether the error notice went out or not.
\<close>

definition notify_execute ::
  "(string \<Rightarrow> string) \<Rightarrow> NotificationOptions \<Rightarrow> webhook \<Rightarrow> int \<Rightarrow> calendar \<Rightarrow> storage \<Rightarrow>
   NotifyArticlesInput \<Rightarrow> (error + NotifyArticlesOutput) \<times> storage" where
  "notify_execute sha256_hex opts hook retentionDays daysAgo st input =
     (let articles = nin_articles input;
          kws = nin_keywords input;
          skipNotifyIfEmpty = orElse (nin_skipNotifyIfEmpty input) False
      in if length articles = 0 then
           (if skipNotifyIfEmpty
            then (Inr \<lparr> notified = False, articleCount = 0, savedToRepository = False \<rparr>, st)
            else (case notifyArticles opts hook [] kws of
                    Inl e \<Rightarrow> (Inl e, st)
                  | Inr u \<Rightarrow>
                      (Inr \<lparr> notified = True, articleCount = 0, savedToRepository = False \<rparr>,
                       st)))
         else
           (let domainArticles = map (toDomain sha256_hex) articles
            in case notify_try sha256_hex opts hook retentionDays daysAgo st domainArticles kws
                      (length articles) of
                 (Inr out, st') \<Rightarrow> (Inr out, st')
               | (Inl e, st') \<Rightarrow>
                   (case notifyError opts hook e of
                      Inl notifyErr \<Rightarrow> (Inl e, st')
                    | Inr u \<Rightarrow> (Inl e, st'))))"

section \<open>Sample data\<close>

text \<open>
  Concrete inputs on which the model is evaluated.  The theorems below hold for
  every digest function; the samples use the identity in its place, so that the
  id of a sample article is its url followed by its title.  The three articles are
  dated 2024-01-01, 2024-03-01 and 2024-02-01 (UTC).
\<close>

definition sample_digest :: "string \<Rightarrow> string" where
  "sample_digest s = s"

definition sampleA :: Article where
  "sampleA = new_Article sample_digest ''Intro to Rust'' ''https://example.com/a''
     1704067200000 ''Example Feed'' None None"

definition sampleB :: Article where
  "sampleB = new_Article sample_digest ''Go meets Rust'' ''https://example.com/b''
     1709251200000 ''Example Feed'' None None"

definition sampleC :: Article where
  "sampleC = new_Article sample_digest ''Java news'' ''https://example.com/c''
     1706745600000 ''Example Feed'' None None"

text \<open>
  Two filters with no keyword, which the constructor would refuse.
\<close>

definition emptyOrFilter :: ArticleFilter where
  "emptyOrFilter =
     \<lparr> f_keywords = [],
       f_options = \<lparr> matchStrategy = MatchOR, caseSensitive = False, searchInTitle = True,
                     searchInDescription = True, searchInContent = False \<rparr> \<rparr>"

definition emptyAndFilter :: ArticleFilter where
  "emptyAndFilter =
     \<lparr> f_keywords = [],
       f_options = \<lparr> matchStrategy = MatchAND, caseSensitive = False, searchInTitle = True,
                     searchInDescription = True, searchInContent = False \<rparr> \<rparr>"

definition sampleNotificationOptions :: NotificationOptions where
  "sampleNotificationOptions = \<lparr> no_maxRetries = 3, no_retryDelayMs = 1000 \<rparr>"

definition sampleFetchOptions :: FetchOptions where
  "sampleFetchOptions = \<lparr> fo_maxRetries = 3, fo_retryDelayMs = 1000, fo_timeout = 10000 \<rparr>"

text \<open>
  A webhook that accepts every message; one that answers the first two attempts
  with status 429 and a \<open>retry-after\<close> of two seconds; one that answers the first
  attempt with status 429 and no such header; one that answers the first attempt
  with status 429 and a \<open>retry-after\<close> of one and a half seconds; one whose first
  attempt dies on the network.
\<close>

definition alwaysPosted :: webhook where
  "alwaysPosted msg attempt = Posted"

definition rateLimitedTwice :: "int \<Rightarrow> post_outcome" where
  "rateLimitedTwice attempt =
     (if attempt \<le> 2 then AxiosErrorResponse 429 (Some ''2'') ''Request failed with status code 429''
      else Posted)"




text \<open>
  Two feeds: \<open>up\<close> fails once and then parses to two articles, \<open>down\<close> fails at
  every attempt.
\<close>

definition feedUp :: Feed where
  "feedUp = \<lparr> feed_name = ''up'', feed_url = ''https://example.com/up.xml'',
              feed_type = Rss, feed_enabled = True \<rparr>"

definition feedDown :: Feed where
  "feedDown = \<lparr> feed_name = ''down'', feed_url = ''https://example.com/down.xml'',
                feed_type = Atom, feed_enabled = True \<rparr>"

definition sampleParser :: parser where
  "sampleParser feed attempt =
     (if feed_name feed = ''up'' \<and> 2 \<le> attempt then Inr [sampleA, sampleB]
      else Inl (FeedParseError ''Failed to parse feed''))"

text \<open>
  Storages with no file yet: one whose first write fails, one whose second write
  fails, one that never fails; and a storage that holds two articles.
\<close>

definition readOnlyStorage :: storage where
  "readOnlyStorage = \<lparr> content = Missing, write_errors = [Some ''EACCES''] \<rparr>"

definition fullAfterOneWrite :: storage where
  "fullAfterOneWrite = \<lparr> content = Missing, write_errors = [None, Some ''ENOSPC''] \<rparr>"

definition emptyStorage :: storage where
  "emptyStorage = \<lparr> content = Missing, write_errors = [] \<rparr>"

text \<open>A calendar of days of 24 hours, read on 2024-03-01 at 00:00 UTC.\<close>

definition sampleCalendar :: calendar where
  "sampleCalendar days = Some (1709251200000 - days * 86400000)"

definition sampleNotifyInput :: NotifyArticlesInput where
  "sampleNotifyInput =
     \<lparr> nin_articles = [fromDomain sampleA], nin_keywords = [''rust''],
       nin_skipNotifyIfEmpty = None \<rparr>"

definition storedAB :: storage where
  "storedAB =
     \<lparr> content = Stored [toPlainObject sampleA, toPlainObject sampleB], write_errors = [] \<rparr>"

definition sampleFetchInput :: FetchArticlesInput where
  "sampleFetchInput =
     \<lparr> in_feeds = [feedDown, feedUp], in_keywords = [], in_maxArticles = Some 0 \<rparr>"

definition uncappedFetchInput :: FetchArticlesInput where
  "uncappedFetchInput =
     \<lparr> in_feeds = [feedDown, feedUp], in_keywords = [], in_maxArticles = None \<rparr>"

lemmas sample_defs =
  sample_digest_def sampleA_def sampleB_def sampleC_def new_Article_def generateId_def

section \<open>Article identity\<close>

text \<open>
  Claim C4.  The id of an article is a function of its url and title alone: two
  articles constructed with the same url and the same title have the same id,
  whatever their description, content, publication date and feed name; and the id
  is the digest (SHA-256 in hexadecimal, the parameter \<open>sha256_hex\<close>) of the url
  immediately followed by the title, with no separator.
\<close>

theorem article_id_pure:
  assumes "urlA = urlB" and "titleA = titleB"
  shows "a_id (new_Article sha256_hex titleA urlA publishedA feedA descrA contentA) =
         a_id (new_Article sha256_hex titleB urlB publishedB feedB descrB contentB)
       \<and> a_id (new_Article sha256_hex titleA urlA publishedA feedA descrA contentA) =
         sha256_hex (urlA @ titleA)"
  using assms by (simp add: new_Article_def generateId_def)

theorem article_id_pure_witness:
  "a_id sampleA =
     a_id (new_Article sample_digest ''Intro to Rust'' ''https://example.com/a'' 0
            ''Other Feed'' (Some ''text'') (Some ''body''))
   \<and> a_id sampleA = sample_digest (''https://example.com/a'' @ ''Intro to Rust'')"
  using article_id_pure [where sha256_hex = sample_digest
      and titleA = "''Intro to Rust''" and urlA = "''https://example.com/a''"
      and publishedA = 1704067200000 and feedA = "''Example Feed''"
      and descrA = None and contentA = None
      and titleB = "''Intro to Rust''" and urlB = "''https://example.com/a''"
      and publishedB = 0 and feedB = "''Other Feed''"
      and descrB = "Some ''text''" and contentB = "Some ''body''"]
  by (simp add: sampleA_def new_Article_def generateId_def)

section \<open>Keyword filter with no keyword\<close>

text \<open>
  \<open>[].some(...)\<close> is false and \<open>[].every(...)\<close> is true.  Under the strategy OR a
  filter with an empty keyword list therefore matches no article, and
  \<open>filterArticles\<close> returns the empty list instead of its input.
\<close>

theorem matchesFilter_empty_keywords_counterexample:
  "f_keywords emptyOrFilter = [] \<and> \<not> matchesFilter sampleA emptyOrFilter
   \<and> filterArticles [sampleA] emptyOrFilter \<noteq> [sampleA]"
  by (simp add: emptyOrFilter_def matchesFilter_def filterArticles_def)

text \<open>
  Claim C2, as amended.  For a filter whose keyword list is empty the outcome
  depends on the strategy: under AND every article matches and \<open>filterArticles\<close>
  returns its input unchanged; under OR no article matches and \<open>filterArticles\<close>
  returns the empty list.
\<close>

theorem matchesFilter_empty_keywords:
  assumes "f_keywords flt = []"
  shows "(matchStrategy (f_options flt) = MatchAND \<longrightarrow>
            matchesFilter article flt \<and> filterArticles articles flt = articles)
       \<and> (matchStrategy (f_options flt) = MatchOR \<longrightarrow>
            \<not> matchesFilter article flt \<and> filterArticles articles flt = [])"
  using assms by (simp add: filterArticles_def matchesFilter_def)

theorem matchesFilter_empty_keywords_witness:
  "filterArticles [sampleA, sampleB] emptyAndFilter = [sampleA, sampleB]
   \<and> filterArticles [sampleA, sampleB] emptyOrFilter = []"
  using matchesFilter_empty_keywords [of emptyAndFilter sampleA "[sampleA, sampleB]"]
        matchesFilter_empty_keywords [of emptyOrFilter sampleA "[sampleA, sampleB]"]
  by (simp add: emptyAndFilter_def emptyOrFilter_def)

section \<open>Deduplication\<close>

text \<open>
  Claim C5.  \<open>excludeReadArticles\<close> returns a subsequence of its input that holds
  exactly the occurrences of the articles whose id is not among the read ids, so
  their relative order is kept; with read ids \<open>{id x}\<close> and input \<open>[x, y]\<close>, where
  the ids of \<open>x\<close> and \<open>y\<close> differ, the result is \<open>[y]\<close>.
\<close>

theorem excludeReadArticles_subsequence:
  "subseq (excludeReadArticles articles seenIds) articles
   \<and> mset (excludeReadArticles articles seenIds) =
       filter_mset (\<lambda>a. a_id a \<notin> seenIds) (mset articles)
   \<and> (a_id x \<noteq> a_id y \<longrightarrow> excludeReadArticles [x, y] {a_id x} = [y])"
  by (simp add: excludeReadArticles_def)

theorem excludeReadArticles_subsequence_witness:
  "a_id sampleA \<noteq> a_id sampleB \<and> excludeReadArticles [sampleA, sampleB] {a_id sampleA} = [sampleB]"
  using excludeReadArticles_subsequence [of "[sampleA, sampleB]" "{a_id sampleA}" sampleA sampleB]
  by (simp add: sample_defs)

section \<open>Ranking\<close>

lemma mset_insertBy: "mset (insertBy cmp x ys) = add_mset x (mset ys)"
  by (induction ys) simp_all

lemma mset_array_sort: "mset (array_sort cmp xs) = mset xs"
  by (induction xs) (simp_all add: mset_insertBy)

lemma set_insertBy: "set (insertBy cmp x ys) = insert x (set ys)"
  by (induction ys) auto

lemma sorted_insertBy:
  "sorted_wrt (\<lambda>a b. a_publishedAt b \<le> a_publishedAt a) ys \<Longrightarrow>
   sorted_wrt (\<lambda>a b. a_publishedAt b \<le> a_publishedAt a)
     (insertBy (\<lambda>a b. a_publishedAt b - a_publishedAt a) x ys)"
  by (induction ys) (auto simp: set_insertBy)

lemma sorted_sortByPublishedDate:
  "sorted_wrt (\<lambda>a b. a_publishedAt b \<le> a_publishedAt a) (sortByPublishedDate xs)"
  unfolding sortByPublishedDate_def
  by (induction xs) (simp_all add: sorted_insertBy)

lemma filter_insertBy:
  "filter (\<lambda>a. a_publishedAt a = t)
     (insertBy (\<lambda>a b. a_publishedAt b - a_publishedAt a) x ys) =
   (if a_publishedAt x = t then x # filter (\<lambda>a. a_publishedAt a = t) ys
    else filter (\<lambda>a. a_publishedAt a = t) ys)"
  by (induction ys) auto

lemma stable_sortByPublishedDate:
  "filter (\<lambda>a. a_publishedAt a = t) (sortByPublishedDate xs) =
   filter (\<lambda>a. a_publishedAt a = t) xs"
  unfolding sortByPublishedDate_def
  by (induction xs) (simp_all add: filter_insertBy)

text \<open>
  Claim C9.  \<open>sortByPublishedDate\<close> returns its articles in descending order of
  \<open>publishedAt\<close>; the result is a rearrangement of the input; the sort is stable,
  that is, the articles of any one timestamp appear in their input order; and
  articles dated 2024-01-01, 2024-03-01, 2024-02-01 come out as 2024-03-01,
  2024-02-01, 2024-01-01.
\<close>

theorem sortByPublishedDate_descending_stable:
  "sorted_wrt (\<lambda>a b. a_publishedAt b \<le> a_publishedAt a) (sortByPublishedDate articles)
   \<and> mset (sortByPublishedDate articles) = mset articles
   \<and> (\<forall>t. filter (\<lambda>a. a_publishedAt a = t) (sortByPublishedDate articles) =
            filter (\<lambda>a. a_publishedAt a = t) articles)
   \<and> (a_publishedAt x = 1704067200000 \<and> a_publishedAt y = 1709251200000 \<and>
      a_publishedAt z = 1706745600000 \<longrightarrow> sortByPublishedDate [x, y, z] = [y, z, x])"
  by (simp add: sorted_sortByPublishedDate stable_sortByPublishedDate)
    (simp add: sortByPublishedDate_def mset_array_sort)

theorem sortByPublishedDate_descending_stable_witness:
  "a_publishedAt sampleA = 1704067200000 \<and> a_publishedAt sampleB = 1709251200000 \<and>
   a_publishedAt sampleC = 1706745600000 \<and>
   sortByPublishedDate [sampleA, sampleB, sampleC] = [sampleB, sampleC, sampleA]"
  using sortByPublishedDate_descending_stable [of "[sampleA, sampleB, sampleC]" sampleA sampleB sampleC]
  by (simp add: sample_defs)

section \<open>Effects of ranking and limiting on their argument\<close>

text \<open>
  \<open>sortByPublishedDate\<close> calls \<open>articles.sort\<close>, which rearranges the array it is
  given: an array holding an older article before a newer one holds them in the
  other order after the call.
\<close>

theorem sortByPublishedDate_mutates_counterexample:
  "fst (sortByPublishedDate_store [[sampleA, sampleB]] 0) ! 0 = [sampleB, sampleA]
   \<and> [sampleB, sampleA] \<noteq> [sampleA, sampleB]"
  by (simp add: sortByPublishedDate_store_def sortByPublishedDate_def sample_defs)

text \<open>
  Claim C3, as amended.  \<open>limitArticles\<close> has no effect on its argument: it
  returns a newly allocated array and every array that existed before the call is
  unchanged.  \<open>sortByPublishedDate\<close> sorts its argument in place and returns that
  same array: after the call the argument holds the same articles in sorted order,
  and every other array is unchanged.
\<close>

theorem limit_pure_sort_in_place:
  assumes "r < length st"
  shows "(case limitArticles_store st r n of
            (st', r') \<Rightarrow> (\<forall>q < length st. st' ! q = st ! q) \<and> r' = length st \<and>
                         st' ! r' = limitArticles (st ! r) n)
       \<and> (case sortByPublishedDate_store st r of
            (st', r') \<Rightarrow> r' = r \<and> length st' = length st \<and>
                         st' ! r = sortByPublishedDate (st ! r) \<and>
                         mset (st' ! r) = mset (st ! r) \<and>
                         (\<forall>q < length st. q \<noteq> r \<longrightarrow> st' ! q = st ! q))"
  using assms
  by (simp add: limitArticles_store_def sortByPublishedDate_store_def alloc_def nth_append
        sortByPublishedDate_def mset_array_sort)

theorem limit_pure_sort_in_place_witness:
  "limitArticles_store [[sampleA, sampleB]] 0 1 = ([[sampleA, sampleB], [sampleA]], 1)
   \<and> sortByPublishedDate_store [[sampleA, sampleB]] 0 = ([[sampleB, sampleA]], 0)"
  using limit_pure_sort_in_place [of 0 "[[sampleA, sampleB]]" 1]
  by (simp add: limitArticles_store_def sortByPublishedDate_store_def alloc_def
        limitArticles_def slice0_def sortByPublishedDate_def sample_defs)

section \<open>Fetching many feeds\<close>

lemma promise_all_absorbed:
  "promise_all (map (\<lambda>x. case f x of Inr v \<Rightarrow> Inr v | Inl e \<Rightarrow> Inr d) xs) =
   Inr (map (\<lambda>x. case f x of Inr v \<Rightarrow> v | Inl e \<Rightarrow> d) xs)"
  by (induction xs) (simp_all split: sum.splits)

lemma fetchFeeds_eq:
  "fetchFeeds opts parse feeds =
     Inr (concat (map (\<lambda>feed. case fst (fetchFeed opts parse feed) of
                                 Inr articles \<Rightarrow> articles | Inl e \<Rightarrow> []) feeds))"
  unfolding fetchFeeds_def Let_def
  by (simp only: promise_all_absorbed sum.case)

lemma fetchLoop_stop:
  "\<not> attempt \<le> fo_maxRetries opts \<Longrightarrow>
   isl (fst (fetchLoop opts parse feed attempt lastError waits))"
  by (simp add: fetchLoop.simps [of opts parse feed attempt])

lemma fetchLoop_found:
  "attempt \<le> fo_maxRetries opts \<Longrightarrow> parse feed attempt = Inr articles \<Longrightarrow>
   fetchLoop opts parse feed attempt lastError waits = (Inr articles, waits)"
  by (simp add: fetchLoop.simps [of opts parse feed attempt])

lemma fetchLoop_retry:
  "attempt \<le> fo_maxRetries opts \<Longrightarrow> parse feed attempt = Inl e \<Longrightarrow>
   fetchLoop opts parse feed attempt lastError waits =
   fetchLoop opts parse feed (attempt + 1) (Some (message e))
     (if attempt < fo_maxRetries opts
      then waits @ [(attempt, fo_retryDelayMs opts * attempt)] else waits)"
  by (simp add: fetchLoop.simps [of opts parse feed attempt])

lemma fetchLoop_exhausted:
  "(\<forall>k. attempt \<le> k \<and> k \<le> fo_maxRetries opts \<longrightarrow> isl (parse feed k)) \<Longrightarrow>
   isl (fst (fetchLoop opts parse feed attempt lastError waits))"
proof (induction "nat (fo_maxRetries opts + 1 - attempt)" arbitrary: attempt lastError waits)
  case 0
  then have "\<not> attempt \<le> fo_maxRetries opts" by simp
  then show ?case by (rule fetchLoop_stop)
next
  case (Suc n)
  then have le: "attempt \<le> fo_maxRetries opts" by simp
  with Suc.prems have "isl (parse feed attempt)" by simp
  then obtain e where e: "parse feed attempt = Inl e"
    by (cases "parse feed attempt") auto
  have n: "n = nat (fo_maxRetries opts + 1 - (attempt + 1))" using Suc.hyps(2) by simp
  have later: "\<forall>k. attempt + 1 \<le> k \<and> k \<le> fo_maxRetries opts \<longrightarrow> isl (parse feed k)"
    using Suc.prems by simp
  show ?case
    unfolding fetchLoop_retry [where parse = parse and feed = feed, OF le e]
    by (rule Suc.hyps(1) [OF n later])
qed

lemma fetchLoop_success:
  "fst (fetchLoop opts parse feed attempt lastError waits) = Inr articles \<Longrightarrow>
   \<exists>k. attempt \<le> k \<and> k \<le> fo_maxRetries opts \<and> parse feed k = Inr articles \<and>
       (\<forall>j. attempt \<le> j \<and> j < k \<longrightarrow> isl (parse feed j))"
proof (induction "nat (fo_maxRetries opts + 1 - attempt)" arbitrary: attempt lastError waits)
  case 0
  then have "\<not> attempt \<le> fo_maxRetries opts" by simp
  from fetchLoop_stop [OF this, of parse feed lastError waits] "0.prems" show ?case by simp
next
  case (Suc n)
  then have le: "attempt \<le> fo_maxRetries opts" by simp
  have n: "n = nat (fo_maxRetries opts + 1 - (attempt + 1))" using Suc.hyps(2) by simp
  show ?case
  proof (cases "parse feed attempt")
    case (Inr found)
    from fetchLoop_found [where parse = parse and feed = feed, OF le Inr] Suc.prems have "found = articles" by simp
    with Inr le show ?thesis by (intro exI [of _ attempt]) auto
  next
    case (Inl e)
    from Suc.prems have
      "fst (fetchLoop opts parse feed (attempt + 1) (Some (message e))
             (if attempt < fo_maxRetries opts
              then waits @ [(attempt, fo_retryDelayMs opts * attempt)] else waits)) = Inr articles"
      unfolding fetchLoop_retry [where parse = parse and feed = feed, OF le Inl] .
    from Suc.hyps(1) [OF n this]
    obtain k where k: "attempt + 1 \<le> k" "k \<le> fo_maxRetries opts"
        "parse feed k = Inr articles" "\<forall>j. attempt + 1 \<le> j \<and> j < k \<longrightarrow> isl (parse feed j)"
      by blast
    have "\<forall>j. attempt \<le> j \<and> j < k \<longrightarrow> isl (parse feed j)"
    proof (intro allI impI)
      fix j assume j: "attempt \<le> j \<and> j < k"
      show "isl (parse feed j)"
      proof (cases "j = attempt")
        case True with Inl show ?thesis by simp
      next
        case False with j k(4) show ?thesis by simp
      qed
    qed
    with k show ?thesis by (intro exI [of _ k]) auto
  qed
qed

text \<open>
  Claim C7.  \<open>fetchFeeds\<close> always returns normally, and its result is the
  concatenation, in the order of the feeds, of what each feed contributes: the
  empty list for a feed whose fetch failed, the fetched articles otherwise.  A feed
  whose every attempt fails makes \<open>fetchFeed\<close> fail, so it contributes the empty
  list.  A feed whose fetch succeeds contributes exactly the list that the parser
  returned at the first attempt that did not fail, in the parser's order.
\<close>

theorem fetchFeeds_absorbs_failures:
  "fetchFeeds opts parse feeds =
     Inr (concat (map (\<lambda>feed. case fst (fetchFeed opts parse feed) of
                                 Inr articles \<Rightarrow> articles | Inl e \<Rightarrow> []) feeds))
   \<and> ((\<forall>k. 1 \<le> k \<and> k \<le> fo_maxRetries opts \<longrightarrow> isl (parse feed k)) \<longrightarrow>
        isl (fst (fetchFeed opts parse feed)))
   \<and> (fst (fetchFeed opts parse feed) = Inr articles \<longrightarrow>
        (\<exists>k. 1 \<le> k \<and> k \<le> fo_maxRetries opts \<and> parse feed k = Inr articles \<and>
             (\<forall>j. 1 \<le> j \<and> j < k \<longrightarrow> isl (parse feed j))))"
  unfolding fetchFeed_def
  using fetchLoop_exhausted [of 1 opts parse feed None "[]"]
        fetchLoop_success [of opts parse feed 1 None "[]" articles]
        fetchFeeds_eq [of opts parse feeds]
  by (simp add: fetchFeed_def)

lemma feedDown_fails: "isl (sampleParser feedDown k)"
  by (simp add: sampleParser_def feedDown_def)

lemma fetchFeed_feedUp:
  "fst (fetchFeed sampleFetchOptions sampleParser feedUp) = Inr [sampleA, sampleB]"
  by (simp add: fetchFeed_def fetchLoop.simps sampleFetchOptions_def sampleParser_def feedUp_def)

theorem fetchFeeds_absorbs_failures_witness:
  "isl (fst (fetchFeed sampleFetchOptions sampleParser feedDown))
   \<and> fetchFeeds sampleFetchOptions sampleParser [feedDown, feedUp] = Inr [sampleA, sampleB]
   \<and> (\<exists>k. 1 \<le> k \<and> k \<le> fo_maxRetries sampleFetchOptions \<and>
           sampleParser feedUp k = Inr [sampleA, sampleB])"
proof -
  have down: "\<forall>k. 1 \<le> k \<and> k \<le> fo_maxRetries sampleFetchOptions \<longrightarrow>
                  isl (sampleParser feedDown k)"
    by (simp add: feedDown_fails)
  from fetchFeeds_absorbs_failures
         [of sampleFetchOptions sampleParser "[feedDown, feedUp]" feedDown "[]"] down
  have a: "isl (fst (fetchFeed sampleFetchOptions sampleParser feedDown))"
      and b: "fetchFeeds sampleFetchOptions sampleParser [feedDown, feedUp] =
                Inr [sampleA, sampleB]"
    using fetchFeed_feedUp by (simp_all split: sum.splits)
  from fetchFeeds_absorbs_failures
         [of sampleFetchOptions sampleParser "[feedUp]" feedUp "[sampleA, sampleB]"]
       fetchFeed_feedUp
  have c: "\<exists>k. 1 \<le> k \<and> k \<le> fo_maxRetries sampleFetchOptions \<and>
               sampleParser feedUp k = Inr [sampleA, sampleB]"
    by blast
  from a b c show ?thesis by simp
qed

section \<open>Appending to the storage\<close>

lemma roundtrip_id:
  "constructed H a \<Longrightarrow> a_id (fromPlainObject H (toPlainObject a)) = a_id a"
  by (simp add: constructed_def fromPlainObject_def toPlainObject_def new_Article_def)

lemma constructed_fromPlainObject: "constructed H (fromPlainObject H obj)"
  by (simp add: constructed_def fromPlainObject_def new_Article_def)

lemma loadArticles_constructed:
  "loadArticles H st = Inr existing \<Longrightarrow> \<forall>a \<in> set existing. constructed H a"
  by (auto simp: loadArticles_def constructed_fromPlainObject split: file_content.splits)

lemma appendArticles_present:
  assumes "loadArticles H st = Inr existing"
      and "\<forall>a \<in> set batch. a_id a \<in> a_id ` set existing"
  shows "appendArticles H st batch = (Inr (), st)"
proof -
  have "filter (\<lambda>article. \<not> (a_id article \<in> set (map a_id existing))) batch = []"
    using assms(2) by (simp add: filter_empty_conv)
  with assms(1) show ?thesis by (simp add: appendArticles_def)
qed

lemma load_after_save:
  "saveArticles st articles = (Inr (), st1) \<Longrightarrow>
   loadArticles H st1 = Inr (map (fromPlainObject H) (map toPlainObject articles))"
  by (auto simp: saveArticles_def loadArticles_def split: list.splits option.splits)

lemma appendArticles_twice:
  assumes ok: "appendArticles H st batch = (Inr (), st1)"
      and wf: "\<forall>a \<in> set batch. constructed H a"
  shows "appendArticles H st1 batch = (Inr (), st1)"
proof -
  from ok obtain existing where ex: "loadArticles H st = Inr existing"
    by (cases "loadArticles H st") (auto simp: appendArticles_def)
  let ?toAdd = "filter (\<lambda>article. \<not> (a_id article \<in> set (map a_id existing))) batch"
  show ?thesis
  proof (cases "?toAdd = []")
    case True
    with ok ex have "st1 = st" by (simp add: appendArticles_def)
    with ok show ?thesis by simp
  next
    case False
    with ok ex have saved: "saveArticles st (existing @ ?toAdd) = (Inr (), st1)"
      by (simp add: appendArticles_def)
    let ?stored = "map (fromPlainObject H) (map toPlainObject (existing @ ?toAdd))"
    from load_after_save [OF saved] have load1: "loadArticles H st1 = Inr ?stored" .
    have wf_all: "\<forall>a \<in> set (existing @ ?toAdd). constructed H a"
      using loadArticles_constructed [OF ex] wf by auto
    have ids: "map a_id ?stored = map a_id (existing @ ?toAdd)"
      using wf_all by (simp add: roundtrip_id)
    have "\<forall>a \<in> set batch. a_id a \<in> a_id ` set ?stored"
    proof
      fix a assume a: "a \<in> set batch"
      have "a_id a \<in> set (map a_id (existing @ ?toAdd))"
      proof (cases "a_id a \<in> set (map a_id existing)")
        case True then show ?thesis by simp
      next
        case False
        with a have "a \<in> set ?toAdd" by simp
        then show ?thesis by force
      qed
      with ids have "a_id a \<in> set (map a_id ?stored)" by (simp only:)
      then show "a_id a \<in> a_id ` set ?stored" by (simp only: set_map)
    qed
    from appendArticles_present [OF load1 this] show ?thesis .
  qed
qed

text \<open>
  Claim C8.  Appending articles whose ids are all present in the readable
  storage succeeds and leaves the storage exactly as it was: nothing is written
  and no record is duplicated.  After a successful append of a batch of articles
  built by the constructor, appending the same batch again succeeds and leaves
  the storage as the first append left it.
\<close>

theorem appendArticles_idempotent:
  "(loadArticles H st = Inr existing \<and> (\<forall>a \<in> set batch. a_id a \<in> a_id ` set existing) \<longrightarrow>
      appendArticles H st batch = (Inr (), st))
   \<and> (appendArticles H st batch = (Inr (), stAfter) \<and> (\<forall>a \<in> set batch. constructed H a) \<longrightarrow>
      appendArticles H stAfter batch = (Inr (), stAfter))"
  using appendArticles_present [of H st existing batch]
        appendArticles_twice [of H st batch stAfter]
  by blast

theorem appendArticles_idempotent_witness:
  "appendArticles sample_digest storedAB [sampleB, sampleA] = (Inr (), storedAB)
   \<and> appendArticles sample_digest emptyStorage [sampleA, sampleB] = (Inr (), storedAB)
   \<and> appendArticles sample_digest storedAB [sampleA, sampleB] = (Inr (), storedAB)"
proof -
  have loaded: "loadArticles sample_digest storedAB = Inr [sampleA, sampleB]"
    by (simp add: loadArticles_def storedAB_def fromPlainObject_def toPlainObject_def
          sample_defs)
  have present: "\<forall>a \<in> set [sampleB, sampleA]. a_id a \<in> a_id ` set [sampleA, sampleB]"
    by simp
  from appendArticles_idempotent
         [of sample_digest storedAB "[sampleA, sampleB]" "[sampleB, sampleA]"] loaded present
  have unchanged: "appendArticles sample_digest storedAB [sampleB, sampleA] = (Inr (), storedAB)"
    by simp
  have once: "appendArticles sample_digest emptyStorage [sampleA, sampleB] = (Inr (), storedAB)"
    by (simp add: appendArticles_def loadArticles_def saveArticles_def emptyStorage_def
          storedAB_def sample_defs)
  have built: "\<forall>a \<in> set [sampleA, sampleB]. constructed sample_digest a"
    by (simp add: constructed_def sample_defs)
  from appendArticles_idempotent
         [of sample_digest emptyStorage "[]" "[sampleA, sampleB]" storedAB] once built
  have twice: "appendArticles sample_digest storedAB [sampleA, sampleB] = (Inr (), storedAB)"
    by simp
  from unchanged once twice show ?thesis by simp
qed

section \<open>The cap on the number of articles\<close>

text \<open>
  Claim C10.  When \<open>maxArticles\<close> is \<open>undefined\<close> or \<open>0\<close>, \<open>execute\<close> does not
  truncate: it returns all the new articles, sorted, and not an empty list.
\<close>

theorem fetch_execute_falsy_maxArticles:
  assumes "in_maxArticles input = None \<or> in_maxArticles input = Some 0"
      and "fetchArticlesFromFeeds opts parse (in_feeds input) = Inr fetched"
      and "filterByKeywords fetched (in_keywords input) = Inr filtered"
      and "uc_excludeReadArticles H st filtered = Inr new"
  shows "fetch_execute H opts parse st input =
           Inr \<lparr> out_articles = fromDomainList (sortByPublishedDate new),
                 totalFetched = length fetched,
                 totalFiltered = length filtered,
                 newArticles = length new \<rparr>"
  using assms by (auto simp: fetch_execute_def)

lemma sample_fetched:
  "fetchArticlesFromFeeds sampleFetchOptions sampleParser [feedDown, feedUp] =
     Inr [sampleA, sampleB]"
  using fetchFeeds_eq [of sampleFetchOptions sampleParser "[feedDown, feedUp]"]
        fetchFeed_feedUp feedDown_fails
        fetchLoop_exhausted [of 1 sampleFetchOptions sampleParser feedDown None "[]"]
  by (simp add: fetchArticlesFromFeeds_def fetchEnabledFeeds_def
        isEnabled_def feedUp_def feedDown_def fetchFeed_def split: sum.splits)

theorem fetch_execute_falsy_maxArticles_witness:
  "in_maxArticles sampleFetchInput = Some 0 \<and>
   fetch_execute sample_digest sampleFetchOptions sampleParser emptyStorage sampleFetchInput =
     Inr \<lparr> out_articles = [fromDomain sampleB, fromDomain sampleA],
           totalFetched = 2, totalFiltered = 2, newArticles = 2 \<rparr> \<and>
   in_maxArticles uncappedFetchInput = None \<and>
   fetch_execute sample_digest sampleFetchOptions sampleParser emptyStorage uncappedFetchInput =
     Inr \<lparr> out_articles = [fromDomain sampleB, fromDomain sampleA],
           totalFetched = 2, totalFiltered = 2, newArticles = 2 \<rparr>"
proof -
  have zero: "in_maxArticles sampleFetchInput = None \<or> in_maxArticles sampleFetchInput = Some 0"
    by (simp add: sampleFetchInput_def)
  have none: "in_maxArticles uncappedFetchInput = None \<or>
              in_maxArticles uncappedFetchInput = Some 0"
    by (simp add: uncappedFetchInput_def)
  have fetched: "fetchArticlesFromFeeds sampleFetchOptions sampleParser
                   (in_feeds sampleFetchInput) = Inr [sampleA, sampleB]"
      "fetchArticlesFromFeeds sampleFetchOptions sampleParser
                   (in_feeds uncappedFetchInput) = Inr [sampleA, sampleB]"
    by (simp_all add: sample_fetched sampleFetchInput_def uncappedFetchInput_def)
  have filtered:
      "filterByKeywords [sampleA, sampleB] (in_keywords sampleFetchInput) = Inr [sampleA, sampleB]"
      "filterByKeywords [sampleA, sampleB] (in_keywords uncappedFetchInput) = Inr [sampleA, sampleB]"
    by (simp_all add: filterByKeywords_def sampleFetchInput_def uncappedFetchInput_def)
  have unread: "uc_excludeReadArticles sample_digest emptyStorage [sampleA, sampleB] =
                  Inr [sampleA, sampleB]"
    by (simp add: uc_excludeReadArticles_def findReadArticleIds_def loadArticles_def
          emptyStorage_def excludeReadArticles_def)
  have sorted: "sortByPublishedDate [sampleA, sampleB] = [sampleB, sampleA]"
    by (simp add: sortByPublishedDate_def sample_defs)
  from fetch_execute_falsy_maxArticles [OF zero fetched(1) filtered(1) unread]
       fetch_execute_falsy_maxArticles [OF none fetched(2) filtered(2) unread] sorted
  show ?thesis
    by (simp add: fromDomainList_def sampleFetchInput_def uncappedFetchInput_def)
qed

section \<open>Waiting between attempts to deliver\<close>























text \<open>
  Two attempts answered with status 429 and a hint of two seconds, then success:
  the send returns normally after three attempts and two waits of 2000 ms.
\<close>

lemma sendWithRetry_rateLimitedTwice:
  "sendWithRetry sampleNotificationOptions rateLimitedTwice =
     (Inr (), [(1, Num 2000), (2, Num 2000)])"
  by (simp add: sendWithRetry_def sendLoop.simps sampleNotificationOptions_def
        rateLimitedTwice_def parseInt_def Let_def isWhiteSpace_def isRadixDigit_def
        digitValue_def digitsValue_def exact_def)

section \<open>Storage failures after a successful delivery\<close>

lemma delivered:
  "notifyArticles sampleNotificationOptions alwaysPosted
     (map (toDomain sample_digest) (nin_articles sampleNotifyInput))
     (nin_keywords sampleNotifyInput) = Inr ()"
  by (simp add: notifyArticles_def sendWithRetry_def sendLoop.simps
        sampleNotificationOptions_def alwaysPosted_def sampleNotifyInput_def)

text \<open>
  The save of the delivered articles stands inside the \<open>try\<close> block of
  \<open>execute\<close>, and the handler throws the caught error again.  With a storage that
  cannot be written, the delivery succeeds and \<open>execute\<close> fails with the storage
  error.
\<close>

theorem notify_execute_persist_failure_counterexample:
  "notifyArticles sampleNotificationOptions alwaysPosted
     (map (toDomain sample_digest) (nin_articles sampleNotifyInput))
     (nin_keywords sampleNotifyInput) = Inr ()
   \<and> fst (saveReadArticles sample_digest readOnlyStorage
            (map (toDomain sample_digest) (nin_articles sampleNotifyInput))) =
       Inl (StorageError ''Failed to save articles to storage: EACCES'')
   \<and> fst (notify_execute sample_digest sampleNotificationOptions alwaysPosted 30 sampleCalendar
            readOnlyStorage sampleNotifyInput) =
       Inl (StorageError ''Failed to save articles to storage: EACCES'')"
  by (simp add: notify_execute_def notify_try_def notifyError_def notifyArticles_def
        sendWithRetry_def sendLoop.simps sampleNotificationOptions_def alwaysPosted_def
        sampleNotifyInput_def saveReadArticles_def appendArticles_def loadArticles_def
        saveArticles_def readOnlyStorage_def)

text \<open>
  Claim C1, as amended.  Let the delivery of a non-empty batch succeed.  If
  saving the delivered articles succeeds, \<open>execute\<close> returns a successful output
  whether pruning then succeeds or fails.  If saving the delivered articles fails,
  \<open>execute\<close> fails with that storage error.
\<close>

theorem notify_execute_after_delivery:
  assumes "nin_articles input \<noteq> []"
      and "notifyArticles opts hook (map (toDomain H) (nin_articles input)) (nin_keywords input)
             = Inr ()"
  shows "(saveReadArticles H st (map (toDomain H) (nin_articles input)) = (Inr (), stSaved) \<and>
          repo_cleanupOldArticles H daysAgo stSaved days = (pruned, stPruned) \<longrightarrow>
            notify_execute H opts hook days daysAgo st input =
              (Inr \<lparr> notified = True, articleCount = length (nin_articles input),
                     savedToRepository = True \<rparr>, stPruned))
       \<and> (saveReadArticles H st (map (toDomain H) (nin_articles input)) = (Inl e, stFailed) \<longrightarrow>
            notify_execute H opts hook days daysAgo st input = (Inl e, stFailed))"
  using assms
  by (auto simp: notify_execute_def notify_try_def uc_cleanupOldArticles_def notifyError_def
           split: sum.splits)

theorem notify_execute_after_delivery_witness:
  "notify_execute sample_digest sampleNotificationOptions alwaysPosted 30 sampleCalendar
     fullAfterOneWrite sampleNotifyInput =
     (Inr \<lparr> notified = True, articleCount = 1, savedToRepository = True \<rparr>,
      \<lparr> content = Stored [toPlainObject sampleA], write_errors = [] \<rparr>)
   \<and> notify_execute sample_digest sampleNotificationOptions alwaysPosted 30 sampleCalendar
     readOnlyStorage sampleNotifyInput =
     (Inl (StorageError ''Failed to save articles to storage: EACCES''),
      \<lparr> content = Missing, write_errors = [] \<rparr>)"
proof -
  have nonempty: "nin_articles sampleNotifyInput \<noteq> []"
    by (simp add: sampleNotifyInput_def)
  have saved: "saveReadArticles sample_digest fullAfterOneWrite
                 (map (toDomain sample_digest) (nin_articles sampleNotifyInput)) =
               (Inr (), \<lparr> content = Stored [toPlainObject sampleA],
                          write_errors = [Some ''ENOSPC''] \<rparr>)"
    by (simp add: saveReadArticles_def appendArticles_def loadArticles_def saveArticles_def
          fullAfterOneWrite_def sampleNotifyInput_def toDomain_def fromDomain_def
          toPlainObject_def sample_defs)
  have pruned: "repo_cleanupOldArticles sample_digest sampleCalendar
                  \<lparr> content = Stored [toPlainObject sampleA], write_errors = [Some ''ENOSPC''] \<rparr> 30 =
                (Inl (StorageError ''Failed to save articles to storage: ENOSPC''),
                 \<lparr> content = Stored [toPlainObject sampleA], write_errors = [] \<rparr>)"
    by (simp add: repo_cleanupOldArticles_def storage_cleanupOldArticles_def loadArticles_def
          saveArticles_def fromPlainObject_def toPlainObject_def sampleCalendar_def sample_defs)
  have failed: "saveReadArticles sample_digest readOnlyStorage
                 (map (toDomain sample_digest) (nin_articles sampleNotifyInput)) =
               (Inl (StorageError ''Failed to save articles to storage: EACCES''),
                \<lparr> content = Missing, write_errors = [] \<rparr>)"
    by (simp add: saveReadArticles_def appendArticles_def loadArticles_def saveArticles_def
          readOnlyStorage_def sampleNotifyInput_def)
  from notify_execute_after_delivery [OF nonempty delivered,
      where st = fullAfterOneWrite
        and stSaved = "\<lparr> content = Stored [toPlainObject sampleA],
                         write_errors = [Some ''ENOSPC''] \<rparr>"
        and daysAgo = sampleCalendar and days = 30
        and pruned = "Inl (StorageError ''Failed to save articles to storage: ENOSPC'')"
        and stPruned = "\<lparr> content = Stored [toPlainObject sampleA], write_errors = [] \<rparr>"]
    saved pruned
  have a: "notify_execute sample_digest sampleNotificationOptions alwaysPosted 30 sampleCalendar
     fullAfterOneWrite sampleNotifyInput =
     (Inr \<lparr> notified = True, articleCount = 1, savedToRepository = True \<rparr>,
      \<lparr> content = Stored [toPlainObject sampleA], write_errors = [] \<rparr>)"
    by (simp add: sampleNotifyInput_def)
  from notify_execute_after_delivery [OF nonempty delivered,
      where st = readOnlyStorage
        and e = "StorageError ''Failed to save articles to storage: EACCES''"
        and stFailed = "\<lparr> content = Missing, write_errors = [] \<rparr>"
        and daysAgo = sampleCalendar and days = 30]
    failed
  have b: "notify_execute sample_digest sampleNotificationOptions alwaysPosted 30 sampleCalendar
     readOnlyStorage sampleNotifyInput =
     (Inl (StorageError ''Failed to save articles to storage: EACCES''),
      \<lparr> content = Missing, write_errors = [] \<rparr>)"
    by simp
  from a b show ?thesis by simp
qed

end
